theory Spec2Isabelle
  imports Main "HOL-Library.Sublist" "HOL-Library.AList"
begin

section \<open>JavaScript primitives used by the sources\<close>

text \<open>
  Page numbers and employee counts are JavaScript numbers that hold integers; they are
  modelled as \<^typ>\<open>int\<close>. The value \<^verbatim>\<open>undefined\<close> of an absent array element and
  the value \<^verbatim>\<open>null\<close> of an optional field are \<^term>\<open>None\<close>.

  A JavaScript number is an IEEE 754 double: it holds an integer exactly when the
  integer has at most 53 significant bits, and the result of an arithmetic operation is
  rounded to the nearest double, a tie to the one whose significand is even.
  \<open>bit_length\<close> is the number of bits of a natural number, and \<open>to_double\<close> rounds an
  integer to the nearest double: it drops the bits below the 53 leading ones and rounds
  the rest. (The integers in question are far below \<open>2 ^ 1024\<close>, where a double
  overflows.) A number that is an argument of the code is a double itself: \<open>is_double\<close>.
\<close>

fun bit_length :: "nat \<Rightarrow> nat" where
  "bit_length n = (if n = 0 then 0 else Suc (bit_length (n div 2)))"

declare bit_length.simps [simp del]

definition to_double :: "int \<Rightarrow> int" where
  "to_double x =
     (let a = nat \<bar>x\<bar>;
          u = 2 ^ (bit_length a - 53);
          q = a div u;
          r = a mod u;
          m = (if 2 * r < u then q else if u < 2 * r then q + 1
               else if even q then q else q + 1)
      in sgn x * int (m * u))"

definition is_double :: "int \<Rightarrow> bool" where
  "is_double x = (to_double x = x)"

text \<open>
  The subtraction \<^verbatim>\<open>a - b\<close> of two numbers that hold integers: the exact difference,
  rounded.
\<close>

definition js_minus :: "int \<Rightarrow> int \<Rightarrow> int" where
  "js_minus a b = to_double (a - b)"

text \<open>
  The remainder operator \<^verbatim>\<open>%\<close> truncates towards zero: the result has the sign of the
  dividend. A zero divisor gives \<^verbatim>\<open>NaN\<close>, which is \<^term>\<open>None\<close> here. A negative
  dividend that the divisor divides gives \<^verbatim>\<open>-0\<close>, which as an array index is the
  index 0, as in the model.
\<close>

definition js_rem :: "int \<Rightarrow> int \<Rightarrow> int option" where
  "js_rem a b = (if b = 0 then None else Some (sgn a * (\<bar>a\<bar> mod \<bar>b\<bar>)))"

text \<open>
  Reading \<^verbatim>\<open>xs[i]\<close>: an index outside \<^verbatim>\<open>0 .. xs.length - 1\<close> (a negative one
  included: JavaScript does not count from the end) and the index \<^verbatim>\<open>NaN\<close> name no
  element, and the read yields \<^verbatim>\<open>undefined\<close>.
\<close>

definition js_index :: "'a list \<Rightarrow> int option \<Rightarrow> 'a option" where
  "js_index xs i =
     (case i of
        None \<Rightarrow> None
      | Some k \<Rightarrow> (if 0 \<le> k \<and> k < int (length xs) then Some (xs ! nat k) else None))"

section \<open>Root source selector (src/utils/helpers.ts)\<close>

text \<open>
  The module \<^verbatim>\<open>./endpoints\<close> that exports \<^verbatim>\<open>API_ENDPOINTS\<close> is not among the
  sources; the two constants the selector reads are a parameter of the model.
\<close>

record api_endpoints =
  DEPARTMENTS2 :: string
  DEPARTMENTS3 :: string

text \<open>
  \<^verbatim>\<open>
  export const getEndpointForRootNodes = (page: number) => {
    const endpoints = [API_ENDPOINTS.DEPARTMENTS2, API_ENDPOINTS.DEPARTMENTS3];
    return endpoints[(page - 1) % endpoints.length];
  };
  \<close>
\<close>

definition getEndpointForRootNodes :: "api_endpoints \<Rightarrow> int \<Rightarrow> string option" where
  "getEndpointForRootNodes API_ENDPOINTS page =
     (let endpoints = [DEPARTMENTS2 API_ENDPOINTS, DEPARTMENTS3 API_ENDPOINTS]
      in js_index endpoints (js_rem (js_minus page 1) (int (length endpoints))))"

section \<open>Nodes and the exact-parent filter (src/utils/helpers.ts)\<close>

text \<open>
  The object that the creation form emits has the four fields \<^verbatim>\<open>label\<close>,
  \<^verbatim>\<open>parentId\<close>, \<^verbatim>\<open>description\<close> and \<^verbatim>\<open>numberOfEmployees\<close>
  (\<^verbatim>\<open>handleSubmit\<close> in the creation modal). A \<^verbatim>\<open>parentId\<close> is a string or
  \<^verbatim>\<open>null\<close>, the root sentinel.
\<close>

text \<open>
  The number of employees comes from the form's reference \<^verbatim>\<open>numberOfEmployees\<close>, which
  the template binds to a number field:
  \<^verbatim>\<open><input v-model.number="numberOfEmployees" type="number" ... />\<close>.
  The reference starts as \<^verbatim>\<open>null\<close> and is reset to \<^verbatim>\<open>null\<close>. On input, the binding
  stores the number that the field's text parses to, and the text itself when it does not
  parse; a number field that holds no valid number has the empty text. So the reference
  holds \<^verbatim>\<open>null\<close>, a number, or the empty string.
\<close>

datatype number_input = NumberValue int | EmptyString

record NewNode =
  label :: string
  parentId :: "string option"
  description :: string
  numberOfEmployees :: "number_input option"

text \<open>
  Modelled from the spec: the type \<^verbatim>\<open>Node\<close> is declared in the store
  \<^verbatim>\<open>stores/dyanmicTree\<close>, which is not among the sources. The data model of the
  specification gives a node the fields above, an \<^verbatim>\<open>id\<close> and the two flags
  \<^verbatim>\<open>childrenLoaded\<close> and \<^verbatim>\<open>expanded\<close>.
\<close>

record Node = NewNode +
  node_id :: string
  childrenLoaded :: bool
  expanded :: bool

text \<open>
  \<^verbatim>\<open>
  export const filterByExactParentID = (data: Node[], parentId: string | null) => {
    return data.filter((item: any) => item.parentId === parentId);
  };
  \<close>
  The callback reads \<^verbatim>\<open>item.parentId\<close> only, so the model takes any record that
  extends \<^typ>\<open>NewNode\<close>. \<^verbatim>\<open>Array.prototype.filter\<close> keeps, in order, the elements
  on which the callback is true; on strings and \<^verbatim>\<open>null\<close> the operator \<^verbatim>\<open>===\<close>
  is equality.
\<close>

definition filterByExactParentID ::
  "'a NewNode_scheme list \<Rightarrow> string option \<Rightarrow> 'a NewNode_scheme list" where
  "filterByExactParentID data parent = filter (\<lambda>item. parentId item = parent) data"

section \<open>Button (src/components/common/Button.vue)\<close>

text \<open>
  The component's props. The \<^verbatim>\<open>action\<close> is a function of the caller; calling it
  is an effect on the caller's world \<^typ>\<open>'w\<close>. A run of the handler carries the world
  and the number of calls of the action made so far.
\<close>

record 'w button_props =
  disabled :: bool
  loading :: bool
  action :: "'w \<Rightarrow> 'w"

record 'w click_run =
  world :: 'w
  action_calls :: nat

definition call_action :: "('w \<Rightarrow> 'w) \<Rightarrow> 'w click_run \<Rightarrow> 'w click_run" where
  "call_action f r = r\<lparr>world := f (world r), action_calls := Suc (action_calls r)\<rparr>"

text \<open>
  \<^verbatim>\<open>
  const handleClick = () => {
    if (!props.disabled && !props.loading) {
      props.action();
    }
  };
  \<close>
\<close>

definition handleClick :: "'w button_props \<Rightarrow> 'w click_run \<Rightarrow> 'w click_run" where
  "handleClick props r =
     (if \<not> disabled props \<and> \<not> loading props then call_action (action props) r else r)"

section \<open>Node creation form (second component of src/components/common/Button.vue)\<close>

subsection \<open>Strings\<close>

text \<open>
  A JavaScript string is a sequence of UTF-16 code units. The model has the code units
  below 256 (\<^typ>\<open>char\<close>). Among them \<^verbatim>\<open>String.prototype.trim\<close> removes, at both
  ends, the white space and line terminators: TAB, LF, VT, FF, CR (9 to 13), SPACE (32)
  and NO-BREAK SPACE (160).
\<close>

definition isWhiteSpace :: "char \<Rightarrow> bool" where
  "isWhiteSpace c = (of_char c \<in> {9, 10, 11, 12, 13, 32, 160 :: nat})"

definition trim :: "string \<Rightarrow> string" where
  "trim s = rev (dropWhile isWhiteSpace (rev (dropWhile isWhiteSpace s)))"

subsection \<open>State of the component\<close>

text \<open>
  The reactive references of the component, each named after the \<^verbatim>\<open>.value\<close> the code
  reads and writes, and the trace of the component's effects in program order: every
  \<^verbatim>\<open>emit\<close> with its payload and every assignment to a reference.
\<close>

datatype form_event = Submit NewNode | Close

datatype form_ref = NewNodeLabel | Description | NumberOfEmployees | IsInputValid | ErrorMessages

datatype form_effect = Emit form_event | Assign form_ref

record form_state =
  newNodeLabel_value :: string
  description_value :: string
  numberOfEmployees_value :: "number_input option"
  isInputValid_value :: bool
  errorMessages_value :: "(string \<times> string) list"
  trace :: "form_effect list"

definition emit :: "form_event \<Rightarrow> form_state \<Rightarrow> form_state" where
  "emit e s = s\<lparr>trace := trace s @ [Emit e]\<rparr>"

definition assign_newNodeLabel :: "string \<Rightarrow> form_state \<Rightarrow> form_state" where
  "assign_newNodeLabel v s = s\<lparr>newNodeLabel_value := v, trace := trace s @ [Assign NewNodeLabel]\<rparr>"

definition assign_description :: "string \<Rightarrow> form_state \<Rightarrow> form_state" where
  "assign_description v s = s\<lparr>description_value := v, trace := trace s @ [Assign Description]\<rparr>"

definition assign_numberOfEmployees :: "number_input option \<Rightarrow> form_state \<Rightarrow> form_state" where
  "assign_numberOfEmployees v s =
     s\<lparr>numberOfEmployees_value := v, trace := trace s @ [Assign NumberOfEmployees]\<rparr>"

definition assign_isInputValid :: "bool \<Rightarrow> form_state \<Rightarrow> form_state" where
  "assign_isInputValid v s = s\<lparr>isInputValid_value := v, trace := trace s @ [Assign IsInputValid]\<rparr>"

definition assign_errorMessages :: "(string \<times> string) list \<Rightarrow> form_state \<Rightarrow> form_state" where
  "assign_errorMessages v s = s\<lparr>errorMessages_value := v, trace := trace s @ [Assign ErrorMessages]\<rparr>"

subsection \<open>The handlers\<close>

text \<open>
  \<^verbatim>\<open>
  const resetAndEmit = (newNode) => {
    emit("submit", newNode);
    newNodeLabel.value = "";
    description.value = "";
    numberOfEmployees.value = null;
    emit("close");
  };
  \<close>
\<close>

definition resetAndEmit :: "NewNode \<Rightarrow> form_state \<Rightarrow> form_state" where
  "resetAndEmit newNode s =
     (let s1 = emit (Submit newNode) s;
          s2 = assign_newNodeLabel [] s1;
          s3 = assign_description [] s2;
          s4 = assign_numberOfEmployees None s3
      in emit Close s4)"

text \<open>
  \<^verbatim>\<open>
  const validateForm = () => {
    const errors: Record<string, string> = {};
    if (!newNodeLabel.value.trim()) { errors.label = "empty_node_label"; }
    if (!description.value.trim()) { errors.description = "empty_description"; }
    if (numberOfEmployees.value === null || numberOfEmployees.value < 0) {
      errors.numberOfEmployees = "invalid_employee_count";
    }
    errorMessages.value = errors;
    return Object.keys(errors)?.length === 0;
  };
  \<close>
  The object \<^verbatim>\<open>errors\<close> is an association list in insertion order; a property
  assignment is \<^const>\<open>AList.update\<close>, \<^verbatim>\<open>Object.keys\<close> is \<^term>\<open>map fst\<close>. The negation
  \<^verbatim>\<open>!s\<close> of a string is true on the empty string only. The function returns its
  boolean together with the state it leaves.

  The comparison \<^verbatim>\<open>v < 0\<close> converts \<open>v\<close> to a number first: \<^verbatim>\<open>null\<close> and the empty
  string both convert to 0.
\<close>

definition less_than_zero :: "number_input option \<Rightarrow> bool" where
  "less_than_zero v =
     (case v of None \<Rightarrow> False | Some (NumberValue n) \<Rightarrow> n < 0 | Some EmptyString \<Rightarrow> False)"

definition validateForm :: "form_state \<Rightarrow> bool \<times> form_state" where
  "validateForm s =
     (let errors = [];
          errors = (if trim (newNodeLabel_value s) = []
                    then AList.update ''label'' ''empty_node_label'' errors else errors);
          errors = (if trim (description_value s) = []
                    then AList.update ''description'' ''empty_description'' errors else errors);
          errors = (if numberOfEmployees_value s = None
                       \<or> less_than_zero (numberOfEmployees_value s)
                    then AList.update ''numberOfEmployees'' ''invalid_employee_count'' errors
                    else errors);
          s' = assign_errorMessages errors s
      in (length (map fst errors) = 0, s'))"

text \<open>
  \<^verbatim>\<open>
  const handleSubmit = () => {
    if (!validateForm()) {
      isInputValid.value = false;
      return;
    }
    isInputValid.value = true;
    const newNode = {
      label: newNodeLabel.value,
      parentId: props.parentId,
      description: description.value,
      numberOfEmployees: numberOfEmployees.value,
    };
    resetAndEmit(newNode);
  };
  \<close>
  The prop \<^verbatim>\<open>props.parentId\<close> is the first argument.
\<close>

definition handleSubmit :: "string option \<Rightarrow> form_state \<Rightarrow> form_state" where
  "handleSubmit props_parentId s =
     (case validateForm s of
        (valid, s1) \<Rightarrow>
          if \<not> valid then assign_isInputValid False s1
          else
            (let s2 = assign_isInputValid True s1;
                 newNode = \<lparr>label = newNodeLabel_value s2,
                            parentId = props_parentId,
                            description = description_value s2,
                            numberOfEmployees = numberOfEmployees_value s2\<rparr>
             in resetAndEmit newNode s2))"

section \<open>CSV export (src/utils/helpers.ts)\<close>

text \<open>
  A cell is any JavaScript value. The code tells \<^verbatim>\<open>null\<close> and \<^verbatim>\<open>undefined\<close>
  (the two values with \<^verbatim>\<open>cell == null\<close>) from the rest and converts the rest with
  \<^verbatim>\<open>String(cell)\<close>: a string is itself, and the conversion of the other values
  (numbers, booleans, objects) is the parameter \<open>toString\<close> of the model.
\<close>

datatype 'a js_value = JNull | JUndefined | JString string | JOther 'a

definition js_String :: "('a \<Rightarrow> string) \<Rightarrow> 'a js_value \<Rightarrow> string" where
  "js_String toString v =
     (case v of
        JNull \<Rightarrow> ''null''
      | JUndefined \<Rightarrow> ''undefined''
      | JString s \<Rightarrow> s
      | JOther x \<Rightarrow> toString x)"

definition loosely_null :: "'a js_value \<Rightarrow> bool" where
  "loosely_null v = (case v of JNull \<Rightarrow> True | JUndefined \<Rightarrow> True | _ \<Rightarrow> False)"

text \<open>
  \<^verbatim>\<open>s.replace(/"/g, '""')\<close>: every double quote (code unit 0x22) of \<open>s\<close> becomes two.
\<close>

fun replace_quotes :: "string \<Rightarrow> string" where
  "replace_quotes [] = []"
| "replace_quotes (c # cs) =
     (if c = CHR 0x22 then CHR 0x22 # CHR 0x22 # replace_quotes cs else c # replace_quotes cs)"

text \<open>
  \<^verbatim>\<open>Array.prototype.join\<close> on an array of strings: the empty array gives the empty
  string, and the separator stands between two neighbours only.
\<close>

fun js_join :: "string \<Rightarrow> string list \<Rightarrow> string" where
  "js_join sep [] = []"
| "js_join sep [x] = x"
| "js_join sep (x # y # ys) = x @ sep @ js_join sep (y # ys)"

text \<open>
  \<^verbatim>\<open>
  const csvHeaders = headers
    .map((header) => `"${header.replace(/"/g, '""')}"`)
    .join(",");
  const csvRows = sortedAndFilteredRows
    .map((row) =>
      row
        .map((cell: any) => {
          if (cell == null) return '""';
          return `"${String(cell).replace(/"/g, '""')}"`;
        })
        .join(",")
    )
    .join("\n");
  const csvContent = `${csvHeaders}\n${csvRows}`;
  \<close>
  A header is a string and a row is an array of cells: the code calls the string method
  \<^verbatim>\<open>replace\<close> of every header and the array method \<^verbatim>\<open>map\<close> of every row, and a
  value without the method would make the call throw a \<^verbatim>\<open>TypeError\<close>.
\<close>

definition csvHeaders :: "string list \<Rightarrow> string" where
  "csvHeaders headers =
     js_join '','' (map (\<lambda>header. [CHR 0x22] @ replace_quotes header @ [CHR 0x22]) headers)"

definition csvRows :: "('a \<Rightarrow> string) \<Rightarrow> 'a js_value list list \<Rightarrow> string" where
  "csvRows toString sortedAndFilteredRows =
     js_join [CHR 0x0A]
       (map (\<lambda>row.
               js_join '',''
                 (map (\<lambda>cell.
                         if loosely_null cell then [CHR 0x22, CHR 0x22]
                         else [CHR 0x22] @ replace_quotes (js_String toString cell) @ [CHR 0x22])
                      row))
            sortedAndFilteredRows)"

text \<open>
  \<open>exportToCSV\<close> returns nothing: it wraps \<open>csvContent\<close> in a \<^verbatim>\<open>Blob\<close> and has the
  browser download it. The model returns the text of that blob. The file name, made of
  the \<open>title\<close> and the current date, is not part of the model.
\<close>

definition exportToCSV :: "('a \<Rightarrow> string) \<Rightarrow> 'a js_value list list \<Rightarrow> string \<Rightarrow> string list \<Rightarrow> string" where
  "exportToCSV toString sortedAndFilteredRows title headers =
     (let csvContent = csvHeaders headers @ [CHR 0x0A] @ csvRows toString sortedAndFilteredRows
      in csvContent)"

subsection \<open>The CSV text in the words of the specification\<close>

text \<open>
  A field wrapped in double quotes, with the double quotes inside it doubled; the fields
  of a line separated by commas; a \<^verbatim>\<open>null\<close> or \<^verbatim>\<open>undefined\<close> cell as the empty
  field.
\<close>

definition quoted :: "string \<Rightarrow> string" where
  "quoted s = [CHR 0x22] @ concat (map (\<lambda>c. if c = CHR 0x22 then [c, c] else [c]) s) @ [CHR 0x22]"

fun separated :: "string \<Rightarrow> string list \<Rightarrow> string" where
  "separated sep [] = []"
| "separated sep (x # xs) = x @ concat (map (\<lambda>y. sep @ y) xs)"

definition cell_text :: "('a \<Rightarrow> string) \<Rightarrow> 'a js_value \<Rightarrow> string" where
  "cell_text toString cell =
     (case cell of JNull \<Rightarrow> [] | JUndefined \<Rightarrow> [] | JString s \<Rightarrow> s | JOther x \<Rightarrow> toString x)"

definition csv_line :: "string list \<Rightarrow> string" where
  "csv_line fs = separated '','' (map quoted fs)"

section \<open>Node repository, creation workflow and fetch coordinator\<close>

text \<open>
  Modelled from the spec: the store \<^verbatim>\<open>stores/dyanmicTree\<close>, which keeps the fetched
  and created nodes, creates nodes optimistically and issues the fetches, is not among
  the sources. The definitions of this section follow the specification's sections on
  the Node Repository, the Node Creation Workflow and the Fetch Coordinator.
\<close>

subsection \<open>Node repository\<close>

text \<open>
  Modelled from the spec: the repository is a keyed store whose \<open>childrenOf\<close> returns an
  ordered sequence, so it is a list of nodes in insertion order, keyed by \<open>id\<close>.
  \<open>upsertMany\<close> merges a batch by \<open>id\<close>: a node whose \<open>id\<close> is present overwrites the
  fields of the stored node but keeps its \<open>expanded\<close> and \<open>childrenLoaded\<close> flags, a node
  whose \<open>id\<close> is new is added at the end. \<open>remove\<close> deletes the node of an \<open>id\<close>.
  \<open>childrenOf\<close> is the exact-parent filter of the sources.
\<close>

type_synonym repository = "Node list"


fun upsert :: "Node \<Rightarrow> repository \<Rightarrow> repository" where
  "upsert n [] = [n]"
| "upsert n (m # ms) =
     (if node_id m = node_id n
      then n\<lparr>childrenLoaded := childrenLoaded m, expanded := expanded m\<rparr> # ms
      else m # upsert n ms)"

text \<open>
  Modelled from the spec: \<open>upsertMany(nodes)\<close> merges the nodes of the batch one after
  the other.
\<close>

definition upsertMany :: "Node list \<Rightarrow> repository \<Rightarrow> repository" where
  "upsertMany nodes repo = fold upsert nodes repo"


text \<open>
  Modelled from the spec: \<open>childrenOf(parentId)\<close> returns the nodes of the repository
  whose \<open>parentId\<close> equals the given id, in order.
\<close>

definition childrenOf :: "repository \<Rightarrow> string option \<Rightarrow> Node list" where
  "childrenOf repo parent = filterByExactParentID repo parent"

subsection \<open>Node creation workflow\<close>




subsection \<open>Fetch coordinator\<close>

text \<open>
  Modelled from the spec: a request key is a \<open>parentId\<close> or \<open>root:p\<close>. The coordinator
  keeps the set of in-flight keys. A load request for a key in flight is ignored; for
  another key it issues one fetch call and puts the key in flight. A network operation
  that is outstanding completes with the fetched nodes or fails; either way its key
  leaves the in-flight set, and on success the nodes are merged with \<open>upsertMany\<close> and
  \<open>childrenLoaded\<close> is set on the parent. The model also keeps the outstanding network
  operations and every fetch call issued, in order, so that a duplicate would show.
\<close>

datatype request_key = ChildrenOfKey string | RootPageKey nat

datatype coordinator_event =
    Load request_key
  | FetchSucceeded request_key "Node list"
  | FetchFailed request_key

record coordinator =
  inFlight :: "request_key set"
  outstanding :: "request_key list"
  fetchCalls :: "request_key list"
  repository :: repository

text \<open>
  Modelled from the spec: on success \<open>childrenLoaded\<close> is set, on the parent whose
  children were fetched.
\<close>

definition markChildrenLoaded :: "request_key \<Rightarrow> repository \<Rightarrow> repository" where
  "markChildrenLoaded k repo =
     (case k of
        ChildrenOfKey parent \<Rightarrow>
          map (\<lambda>n. if node_id n = parent then n\<lparr>childrenLoaded := True\<rparr> else n) repo
      | RootPageKey p \<Rightarrow> repo)"

text \<open>
  Modelled from the spec: one step of the coordinator, on a load request or on the
  completion of a network operation. A completion for a key with no outstanding
  operation cannot happen and leaves the state as it is.
\<close>

fun coordinator_step :: "coordinator \<Rightarrow> coordinator_event \<Rightarrow> coordinator" where
  "coordinator_step c (Load k) =
     (if k \<in> inFlight c then c
      else c\<lparr>inFlight := insert k (inFlight c),
             outstanding := outstanding c @ [k],
             fetchCalls := fetchCalls c @ [k]\<rparr>)"
| "coordinator_step c (FetchSucceeded k nodes) =
     (if k \<in> set (outstanding c)
      then c\<lparr>inFlight := inFlight c - {k},
             outstanding := remove1 k (outstanding c),
             repository := markChildrenLoaded k (upsertMany nodes (repository c))\<rparr>
      else c)"
| "coordinator_step c (FetchFailed k) =
     (if k \<in> set (outstanding c)
      then c\<lparr>inFlight := inFlight c - {k}, outstanding := remove1 k (outstanding c)\<rparr>
      else c)"

definition coordinator_init :: "repository \<Rightarrow> coordinator" where
  "coordinator_init repo = \<lparr>inFlight = {}, outstanding = [], fetchCalls = [], repository = repo\<rparr>"

definition coordinator_run :: "coordinator_event list \<Rightarrow> coordinator \<Rightarrow> coordinator" where
  "coordinator_run events c = foldl coordinator_step c events"

fun completes :: "request_key \<Rightarrow> coordinator_event \<Rightarrow> bool" where
  "completes k (Load k') = False"
| "completes k (FetchSucceeded k' nodes) = (k' = k)"
| "completes k (FetchFailed k') = (k' = k)"

section \<open>Properties of the root source selector\<close>

lemma bit_length_le: "n < 2 ^ k \<Longrightarrow> bit_length n \<le> k"
proof (induction k arbitrary: n)
  case 0
  then show ?case by (simp add: bit_length.simps)
next
  case (Suc k)
  show ?case
  proof (cases "n = 0")
    case True
    then show ?thesis by (simp add: bit_length.simps)
  next
    case False
    from Suc.prems have "n div 2 < 2 ^ k" by simp
    then have "bit_length (n div 2) \<le> k" by (rule Suc.IH)
    with False show ?thesis by (subst bit_length.simps) simp
  qed
qed

lemma to_double_exact: "\<bar>x\<bar> < 2 ^ 53 \<Longrightarrow> to_double x = x"
proof -
  assume small: "\<bar>x\<bar> < 2 ^ 53"
  then have "nat \<bar>x\<bar> < 2 ^ 53" by simp
  then have "bit_length (nat \<bar>x\<bar>) - 53 = 0"
    using bit_length_le [of "nat \<bar>x\<bar>" 53] by simp
  then have "to_double x = sgn x * int (nat \<bar>x\<bar>)"
    by (simp add: to_double_def)
  then show ?thesis
    by (simp add: sgn_if)
qed

lemma js_minus_exact: "\<bar>p - 1\<bar> < 2 ^ 53 \<Longrightarrow> js_minus p 1 = p - 1"
  by (simp add: js_minus_def to_double_exact)

lemma js_rem_two_nonneg: "0 \<le> k \<Longrightarrow> js_rem k 2 = Some (k mod 2)"
  by (simp add: js_rem_def sgn_if)

lemma getEndpointForRootNodes_even:
  "1 \<le> p \<Longrightarrow> p \<le> 2 ^ 53 \<Longrightarrow> (p - 1) mod 2 = 0 \<Longrightarrow>
     getEndpointForRootNodes E p = Some (DEPARTMENTS2 E)"
  by (simp add: getEndpointForRootNodes_def js_index_def js_rem_two_nonneg js_minus_exact)

lemma getEndpointForRootNodes_odd:
  "1 \<le> p \<Longrightarrow> p \<le> 2 ^ 53 \<Longrightarrow> (p - 1) mod 2 = 1 \<Longrightarrow>
     getEndpointForRootNodes E p = Some (DEPARTMENTS3 E)"
  by (simp add: getEndpointForRootNodes_def js_index_def js_rem_two_nonneg js_minus_exact)

text \<open>
  Claim C1, as stated, fails at page \<open>2 ^ 53 + 2 = 9007199254740994\<close>, a number that a
  double holds: \<open>page - 1\<close> is \<open>2 ^ 53 + 1\<close>, which no double holds, and it is rounded to
  \<open>2 ^ 53\<close>; the selector returns the endpoint at index 0, where \<open>(p - 1) mod 2\<close> is 1.
\<close>

theorem getEndpointForRootNodes_large_page_counterexample:
  "(1::int) \<le> 9007199254740994
   \<and> is_double 9007199254740994
   \<and> js_minus 9007199254740994 1 = 9007199254740992
   \<and> getEndpointForRootNodes \<lparr>DEPARTMENTS2 = ''A'', DEPARTMENTS3 = ''B''\<rparr> 9007199254740994
       = Some ''A''
   \<and> [''A'', ''B''] ! nat ((9007199254740994 - 1) mod 2) = ''B''"
proof -
  have bits: "bit_length 9007199254740993 = 54" "bit_length 9007199254740994 = 54"
    by (simp_all add: bit_length.simps)
  have double: "is_double 9007199254740994"
    by (simp add: is_double_def to_double_def bits)
  have minus: "js_minus 9007199254740994 1 = 9007199254740992"
    by (simp add: js_minus_def to_double_def bits)
  have "getEndpointForRootNodes \<lparr>DEPARTMENTS2 = ''A'', DEPARTMENTS3 = ''B''\<rparr> 9007199254740994
       = Some ''A''"
    by (simp add: getEndpointForRootNodes_def js_index_def js_rem_def minus)
  with double minus show ?thesis
    by simp
qed

text \<open>
  Claim C1, amended. For every page number \<open>p\<close> with \<open>1 \<le> p \<le> 2 ^ 53\<close> the selector
  returns the endpoint at index \<open>(p - 1) mod 2\<close> of the list
  \<open>[DEPARTMENTS2, DEPARTMENTS3]\<close>. Within that range the selection has period two and
  two consecutive pages select both endpoints, and the pages 1, 2, 3, 4 select
  \<open>DEPARTMENTS2, DEPARTMENTS3, DEPARTMENTS2, DEPARTMENTS3\<close>.
\<close>

theorem getEndpointForRootNodes_round_robin:
  assumes "1 \<le> p" and "p \<le> 2 ^ 53"
  shows "getEndpointForRootNodes E p
           = Some ([DEPARTMENTS2 E, DEPARTMENTS3 E] ! nat ((p - 1) mod 2))
         \<and> nat ((p - 1) mod 2) < length [DEPARTMENTS2 E, DEPARTMENTS3 E]
         \<and> (p + 2 \<le> 2 ^ 53 \<longrightarrow>
              getEndpointForRootNodes E (p + 2) = getEndpointForRootNodes E p)
         \<and> (p + 1 \<le> 2 ^ 53 \<longrightarrow>
              {getEndpointForRootNodes E p, getEndpointForRootNodes E (p + 1)}
                = {Some (DEPARTMENTS2 E), Some (DEPARTMENTS3 E)})
         \<and> map (getEndpointForRootNodes E) [1, 2, 3, 4]
             = [Some (DEPARTMENTS2 E), Some (DEPARTMENTS3 E),
                Some (DEPARTMENTS2 E), Some (DEPARTMENTS3 E)]"
proof -
  have cases: "(p - 1) mod 2 = 0 \<or> (p - 1) mod 2 = 1"
    by presburger
  have fixed: "map (getEndpointForRootNodes E) [1, 2, 3, 4]
             = [Some (DEPARTMENTS2 E), Some (DEPARTMENTS3 E),
                Some (DEPARTMENTS2 E), Some (DEPARTMENTS3 E)]"
    by (simp add: getEndpointForRootNodes_def js_index_def js_rem_def js_minus_exact)
  from cases show ?thesis
  proof
    assume even: "(p - 1) mod 2 = 0"
    then have next_odd: "(p + 1 - 1) mod 2 = 1" and again: "(p + 2 - 1) mod 2 = 0"
      by presburger+
    from assms even next_odd again fixed show ?thesis
      by (simp add: getEndpointForRootNodes_even getEndpointForRootNodes_odd)
  next
    assume odd: "(p - 1) mod 2 = 1"
    then have next_even: "(p + 1 - 1) mod 2 = 0" and again: "(p + 2 - 1) mod 2 = 1"
      by presburger+
    from assms odd next_even again fixed show ?thesis
      by (auto simp add: getEndpointForRootNodes_even getEndpointForRootNodes_odd)
  qed
qed

theorem getEndpointForRootNodes_round_robin_witness:
  "(1::int) \<le> 3 \<and> (3::int) \<le> 2 ^ 53 \<and> (3::int) + 2 \<le> 2 ^ 53 \<and> (3::int) + 1 \<le> 2 ^ 53
   \<and> getEndpointForRootNodes \<lparr>DEPARTMENTS2 = ''/departments2'', DEPARTMENTS3 = ''/departments3''\<rparr> 3
       = Some ''/departments2''
   \<and> getEndpointForRootNodes \<lparr>DEPARTMENTS2 = ''/departments2'', DEPARTMENTS3 = ''/departments3''\<rparr> 4
       = Some ''/departments3''
   \<and> getEndpointForRootNodes \<lparr>DEPARTMENTS2 = ''/departments2'', DEPARTMENTS3 = ''/departments3''\<rparr> 5
       = Some ''/departments2''"
  using getEndpointForRootNodes_round_robin
    [of 3 "\<lparr>DEPARTMENTS2 = ''/departments2'', DEPARTMENTS3 = ''/departments3''\<rparr>"]
  by (simp add: getEndpointForRootNodes_def js_index_def js_rem_def js_minus_exact)

text \<open>
  Claim C8. Page 0 lies outside the 1-based range: \<open>(0 - 1) % 2\<close> is \<open>-1\<close>, the list has
  no element at index \<open>-1\<close>, and the selector returns \<^verbatim>\<open>undefined\<close>. The selector
  therefore does not return an endpoint for every page.
\<close>

theorem getEndpointForRootNodes_page_zero:
  "js_rem (0 - 1) 2 = Some (- 1)
   \<and> getEndpointForRootNodes E 0 = None
   \<and> \<not> (\<forall>p. \<exists>e. getEndpointForRootNodes E p = Some e)"
proof -
  have zero: "getEndpointForRootNodes E 0 = None"
    by (simp add: getEndpointForRootNodes_def js_index_def js_rem_def js_minus_exact)
  then have "\<not> (\<forall>p. \<exists>e. getEndpointForRootNodes E p = Some e)"
    by (metis option.distinct(1))
  with zero show ?thesis
    by (simp add: js_rem_def)
qed

section \<open>Properties of the exact-parent filter\<close>

lemma count_list_filter:
  "count_list (filter P xs) n = (if P n then count_list xs n else 0)"
  by (induction xs) auto

text \<open>
  Claim C2. For every list of nodes and every parent id \<open>X\<close> (\<^term>\<open>None\<close> is the root
  sentinel), the result holds exactly the nodes of the input whose \<open>parentId\<close> equals
  \<open>X\<close>, each as often as the input holds it, and no node with another \<open>parentId\<close>.
\<close>

theorem filterByExactParentID_exact:
  "set (filterByExactParentID data X) = {n \<in> set data. parentId n = X}
   \<and> (\<forall>n \<in> set (filterByExactParentID data X). parentId n = X)
   \<and> (\<forall>n. parentId n \<noteq> X \<longrightarrow> n \<notin> set (filterByExactParentID data X))
   \<and> (\<forall>n. parentId n = X \<longrightarrow>
         count_list (filterByExactParentID data X) n = count_list data n)"
  by (auto simp add: filterByExactParentID_def count_list_filter)

theorem filterByExactParentID_exact_witness:
  "set (filterByExactParentID
          [\<lparr>label = ''hr'', parentId = Some ''1'', description = ''d'', numberOfEmployees = Some (NumberValue 3)\<rparr>,
           \<lparr>label = ''it'', parentId = Some ''11'', description = ''d'', numberOfEmployees = Some (NumberValue 4)\<rparr>,
           \<lparr>label = ''top'', parentId = None, description = ''d'', numberOfEmployees = Some (NumberValue 9)\<rparr>]
          (Some ''1''))
     = {\<lparr>label = ''hr'', parentId = Some ''1'', description = ''d'', numberOfEmployees = Some (NumberValue 3)\<rparr>}"
  using filterByExactParentID_exact
    [of "[\<lparr>label = ''hr'', parentId = Some ''1'', description = ''d'', numberOfEmployees = Some (NumberValue 3)\<rparr>,
          \<lparr>label = ''it'', parentId = Some ''11'', description = ''d'', numberOfEmployees = Some (NumberValue 4)\<rparr>,
          \<lparr>label = ''top'', parentId = None, description = ''d'', numberOfEmployees = Some (NumberValue 9)\<rparr>]"
        "Some ''1''"]
  by (simp add: filterByExactParentID_def)

text \<open>
  Claim C7. The result keeps the relative order of the input: it is a subsequence of the
  input list.
\<close>

theorem filterByExactParentID_subseq:
  "subseq (filterByExactParentID data X) data"
  by (simp add: filterByExactParentID_def)

section \<open>Properties of the button\<close>

text \<open>
  Claim C9. A click calls the action exactly when neither \<open>disabled\<close> nor \<open>loading\<close> is
  set: then the action is called once, on the caller's world; when either is set the
  click calls nothing and changes nothing.
\<close>

theorem handleClick_calls_action_iff:
  "(action_calls (handleClick props r) = Suc (action_calls r)
      \<longleftrightarrow> \<not> disabled props \<and> \<not> loading props)
   \<and> (\<not> disabled props \<and> \<not> loading props
        \<longrightarrow> world (handleClick props r) = action props (world r))
   \<and> (disabled props \<or> loading props \<longrightarrow> handleClick props r = r)"
  by (simp add: handleClick_def call_action_def)

theorem handleClick_calls_action_iff_witness:
  "action_calls (handleClick \<lparr>disabled = False, loading = False, action = (\<lambda>w. w + 5)\<rparr>
                   \<lparr>world = (1::nat), action_calls = 0\<rparr>) = Suc 0
   \<and> world (handleClick \<lparr>disabled = False, loading = False, action = (\<lambda>w. w + 5)\<rparr>
                   \<lparr>world = (1::nat), action_calls = 0\<rparr>) = 6
   \<and> handleClick \<lparr>disabled = False, loading = True, action = (\<lambda>w. w + 5)\<rparr>
                   \<lparr>world = (1::nat), action_calls = 0\<rparr>
       = \<lparr>world = 1, action_calls = 0\<rparr>
   \<and> handleClick \<lparr>disabled = True, loading = False, action = (\<lambda>w. w + 5)\<rparr>
                   \<lparr>world = (1::nat), action_calls = 0\<rparr>
       = \<lparr>world = 1, action_calls = 0\<rparr>"
  using handleClick_calls_action_iff
    [of "\<lparr>disabled = False, loading = False, action = (\<lambda>w. w + 5)\<rparr>"
        "\<lparr>world = (1::nat), action_calls = 0\<rparr>"]
    handleClick_calls_action_iff
    [of "\<lparr>disabled = False, loading = True, action = (\<lambda>w. w + 5)\<rparr>"
        "\<lparr>world = (1::nat), action_calls = 0\<rparr>"]
    handleClick_calls_action_iff
    [of "\<lparr>disabled = True, loading = False, action = (\<lambda>w. w + 5)\<rparr>"
        "\<lparr>world = (1::nat), action_calls = 0\<rparr>"]
  by simp

section \<open>Properties of the node creation form\<close>

lemma all_dropWhile_iff: "(\<forall>x \<in> set (dropWhile P xs). P x) \<longleftrightarrow> (\<forall>x \<in> set xs. P x)"
  by (induction xs) auto

lemma trim_empty_iff: "trim s = [] \<longleftrightarrow> (\<forall>c \<in> set s. isWhiteSpace c)"
  by (simp add: trim_def dropWhile_eq_Nil_conv all_dropWhile_iff)

lemma less_than_zero_iff: "less_than_zero v \<longleftrightarrow> (\<exists>n. v = Some (NumberValue n) \<and> n < 0)"
  by (auto simp add: less_than_zero_def split: option.splits number_input.splits)

lemma validateForm_errors:
  "errorMessages_value (snd (validateForm s)) =
     (if trim (newNodeLabel_value s) = [] then [(''label'', ''empty_node_label'')] else [])
     @ (if trim (description_value s) = [] then [(''description'', ''empty_description'')] else [])
     @ (if numberOfEmployees_value s = None \<or> less_than_zero (numberOfEmployees_value s)
        then [(''numberOfEmployees'', ''invalid_employee_count'')] else [])"
  by (simp add: validateForm_def assign_errorMessages_def Let_def)

lemma validateForm_result:
  "fst (validateForm s) \<longleftrightarrow> errorMessages_value (snd (validateForm s)) = []"
  by (simp add: validateForm_def assign_errorMessages_def Let_def)

lemma validateForm_frame:
  "newNodeLabel_value (snd (validateForm s)) = newNodeLabel_value s
   \<and> description_value (snd (validateForm s)) = description_value s
   \<and> numberOfEmployees_value (snd (validateForm s)) = numberOfEmployees_value s
   \<and> trace (snd (validateForm s)) = trace s @ [Assign ErrorMessages]"
  by (simp add: validateForm_def assign_errorMessages_def Let_def)

text \<open>
  What \<open>validateForm\<close> reports, for every state of the form: the label and the
  description when they are empty after trimming, and the number of employees when the
  reference holds \<^verbatim>\<open>null\<close> or a negative number. It reports them all at once. It does
  not report the number of employees when the reference holds the empty string.
\<close>

lemma validateForm_reports:
  "map_of (errorMessages_value (snd (validateForm s))) ''label''
     = (if trim (newNodeLabel_value s) = [] then Some ''empty_node_label'' else None)
   \<and> map_of (errorMessages_value (snd (validateForm s))) ''description''
     = (if trim (description_value s) = [] then Some ''empty_description'' else None)
   \<and> map_of (errorMessages_value (snd (validateForm s))) ''numberOfEmployees''
     = (if numberOfEmployees_value s = None
           \<or> (\<exists>n. numberOfEmployees_value s = Some (NumberValue n) \<and> n < 0)
        then Some ''invalid_employee_count'' else None)
   \<and> set (map fst (errorMessages_value (snd (validateForm s))))
       \<subseteq> {''label'', ''description'', ''numberOfEmployees''}
   \<and> (fst (validateForm s) \<longleftrightarrow>
         trim (newNodeLabel_value s) \<noteq> [] \<and> trim (description_value s) \<noteq> []
         \<and> (numberOfEmployees_value s = Some EmptyString
              \<or> (\<exists>n. numberOfEmployees_value s = Some (NumberValue n) \<and> 0 \<le> n)))"
proof -
  let ?errs = "errorMessages_value (snd (validateForm s))"
  have label: "map_of ?errs ''label''
     = (if trim (newNodeLabel_value s) = [] then Some ''empty_node_label'' else None)"
    by (simp add: validateForm_errors)
  have descr: "map_of ?errs ''description''
     = (if trim (description_value s) = [] then Some ''empty_description'' else None)"
    by (simp add: validateForm_errors)
  have count: "map_of ?errs ''numberOfEmployees''
     = (if numberOfEmployees_value s = None
           \<or> (\<exists>n. numberOfEmployees_value s = Some (NumberValue n) \<and> n < 0)
        then Some ''invalid_employee_count'' else None)"
    by (simp add: validateForm_errors less_than_zero_iff)
  have keys: "set (map fst ?errs) \<subseteq> {''label'', ''description'', ''numberOfEmployees''}"
    by (auto simp add: validateForm_errors)
  have "\<not> (numberOfEmployees_value s = None \<or> less_than_zero (numberOfEmployees_value s))
      \<longleftrightarrow> numberOfEmployees_value s = Some EmptyString
          \<or> (\<exists>n. numberOfEmployees_value s = Some (NumberValue n) \<and> 0 \<le> n)"
    by (auto simp add: less_than_zero_def split: option.splits number_input.splits)
  then have ok: "fst (validateForm s) \<longleftrightarrow>
         trim (newNodeLabel_value s) \<noteq> [] \<and> trim (description_value s) \<noteq> []
         \<and> (numberOfEmployees_value s = Some EmptyString
              \<or> (\<exists>n. numberOfEmployees_value s = Some (NumberValue n) \<and> 0 \<le> n))"
    by (auto simp add: validateForm_result validateForm_errors)
  from label descr count keys ok show ?thesis
    by blast
qed

text \<open>
  Claim C3 says that a form whose number of employees is absent is reported with
  \<open>invalid_employee_count\<close>, and that validation succeeds only when no rule is violated.
  The code does not do so when the number field was filled and then cleared: the number
  of employees is absent, the reference holds the empty string, which is neither
  \<^verbatim>\<open>null\<close> nor less than zero, and with a label and a description \<open>validateForm\<close>
  reports no error and returns true; \<open>handleSubmit\<close> then emits the node with the empty
  string as its number of employees.
\<close>

theorem validateForm_accepts_cleared_count:
  "validateForm
     \<lparr>newNodeLabel_value = ''HR'', description_value = ''staff'',
      numberOfEmployees_value = Some EmptyString, isInputValid_value = True,
      errorMessages_value = [], trace = []\<rparr>
     = (True,
        \<lparr>newNodeLabel_value = ''HR'', description_value = ''staff'',
         numberOfEmployees_value = Some EmptyString, isInputValid_value = True,
         errorMessages_value = [], trace = [Assign ErrorMessages]\<rparr>)
   \<and> trace (handleSubmit None
        \<lparr>newNodeLabel_value = ''HR'', description_value = ''staff'',
         numberOfEmployees_value = Some EmptyString, isInputValid_value = True,
         errorMessages_value = [], trace = []\<rparr>)
       = [Assign ErrorMessages, Assign IsInputValid,
          Emit (Submit \<lparr>label = ''HR'', parentId = None, description = ''staff'',
                        numberOfEmployees = Some EmptyString\<rparr>),
          Assign NewNodeLabel, Assign Description, Assign NumberOfEmployees, Emit Close]"
  by (simp add: handleSubmit_def validateForm_def assign_errorMessages_def less_than_zero_def
      trim_def isWhiteSpace_def resetAndEmit_def emit_def assign_isInputValid_def
      assign_newNodeLabel_def assign_description_def assign_numberOfEmployees_def)

lemma resetAndEmit_effects:
  "trace (resetAndEmit newNode s)
     = trace s @ [Emit (Submit newNode), Assign NewNodeLabel, Assign Description,
                  Assign NumberOfEmployees, Emit Close]
   \<and> newNodeLabel_value (resetAndEmit newNode s) = []
   \<and> description_value (resetAndEmit newNode s) = []
   \<and> numberOfEmployees_value (resetAndEmit newNode s) = None"
  by (simp add: resetAndEmit_def emit_def assign_newNodeLabel_def assign_description_def
      assign_numberOfEmployees_def)

lemma handleSubmit_invalid:
  "\<not> fst (validateForm s) \<Longrightarrow>
     handleSubmit p s = assign_isInputValid False (snd (validateForm s))"
  by (cases "validateForm s") (simp add: handleSubmit_def)

lemma handleSubmit_valid:
  "fst (validateForm s) \<Longrightarrow>
     handleSubmit p s =
       resetAndEmit \<lparr>label = newNodeLabel_value s, parentId = p,
                     description = description_value s,
                     numberOfEmployees = numberOfEmployees_value s\<rparr>
         (assign_isInputValid True (snd (validateForm s)))"
  using validateForm_frame [of s]
  by (cases "validateForm s") (simp add: handleSubmit_def assign_isInputValid_def Let_def)

text \<open>
  Claim C6. When \<open>validateForm\<close> fails, \<open>handleSubmit\<close> emits nothing and leaves the three
  input fields as they were: its only effects are the assignments to the error messages
  and to the validity flag. When it passes, the \<open>submit\<close> event, carrying the node built
  from the field values and the parent id, is emitted before the three fields are
  assigned their cleared values, and \<open>close\<close> is emitted last.
\<close>

theorem handleSubmit_resets_only_after_emit:
  "(\<not> fst (validateForm s) \<longrightarrow>
      trace (handleSubmit p s) = trace s @ [Assign ErrorMessages, Assign IsInputValid]
      \<and> newNodeLabel_value (handleSubmit p s) = newNodeLabel_value s
      \<and> description_value (handleSubmit p s) = description_value s
      \<and> numberOfEmployees_value (handleSubmit p s) = numberOfEmployees_value s
      \<and> \<not> isInputValid_value (handleSubmit p s))
   \<and> (fst (validateForm s) \<longrightarrow>
      trace (handleSubmit p s)
        = trace s @ [Assign ErrorMessages, Assign IsInputValid,
                     Emit (Submit \<lparr>label = newNodeLabel_value s, parentId = p,
                                   description = description_value s,
                                   numberOfEmployees = numberOfEmployees_value s\<rparr>),
                     Assign NewNodeLabel, Assign Description, Assign NumberOfEmployees,
                     Emit Close]
      \<and> newNodeLabel_value (handleSubmit p s) = []
      \<and> description_value (handleSubmit p s) = []
      \<and> numberOfEmployees_value (handleSubmit p s) = None
      \<and> isInputValid_value (handleSubmit p s))"
proof (cases "fst (validateForm s)")
  case True
  let ?s2 = "assign_isInputValid True (snd (validateForm s))"
  have "trace ?s2 = trace s @ [Assign ErrorMessages, Assign IsInputValid]"
    using validateForm_frame [of s] by (simp add: assign_isInputValid_def)
  moreover have "isInputValid_value (resetAndEmit n ?s2)" for n
    by (simp add: resetAndEmit_def emit_def assign_newNodeLabel_def assign_description_def
        assign_numberOfEmployees_def assign_isInputValid_def)
  ultimately show ?thesis
    using True by (simp add: handleSubmit_valid resetAndEmit_effects)
next
  case False
  then show ?thesis
    using validateForm_frame [of s]
    by (simp add: handleSubmit_invalid assign_isInputValid_def)
qed

theorem handleSubmit_resets_only_after_emit_witness:
  "\<not> fst (validateForm
        \<lparr>newNodeLabel_value = ''  '', description_value = ''sales'',
         numberOfEmployees_value = Some (NumberValue (- 4)), isInputValid_value = True,
         errorMessages_value = [], trace = []\<rparr>)
   \<and> newNodeLabel_value (handleSubmit (Some ''42'')
        \<lparr>newNodeLabel_value = ''  '', description_value = ''sales'',
         numberOfEmployees_value = Some (NumberValue (- 4)), isInputValid_value = True,
         errorMessages_value = [], trace = []\<rparr>) = ''  ''
   \<and> fst (validateForm
        \<lparr>newNodeLabel_value = ''HR'', description_value = ''sales'',
         numberOfEmployees_value = Some (NumberValue 7), isInputValid_value = True,
         errorMessages_value = [], trace = []\<rparr>)
   \<and> trace (handleSubmit (Some ''42'')
        \<lparr>newNodeLabel_value = ''HR'', description_value = ''sales'',
         numberOfEmployees_value = Some (NumberValue 7), isInputValid_value = True,
         errorMessages_value = [], trace = []\<rparr>)
       = [Assign ErrorMessages, Assign IsInputValid,
          Emit (Submit \<lparr>label = ''HR'', parentId = Some ''42'', description = ''sales'',
                        numberOfEmployees = Some (NumberValue 7)\<rparr>),
          Assign NewNodeLabel, Assign Description, Assign NumberOfEmployees, Emit Close]"
  using handleSubmit_resets_only_after_emit
    [of "\<lparr>newNodeLabel_value = ''  '', description_value = ''sales'',
          numberOfEmployees_value = Some (NumberValue (- 4)), isInputValid_value = True,
          errorMessages_value = [], trace = []\<rparr>" "Some ''42''"]
    handleSubmit_resets_only_after_emit
    [of "\<lparr>newNodeLabel_value = ''HR'', description_value = ''sales'',
          numberOfEmployees_value = Some (NumberValue 7), isInputValid_value = True,
          errorMessages_value = [], trace = []\<rparr>" "Some ''42''"]
  by (simp add: validateForm_def assign_errorMessages_def trim_def isWhiteSpace_def
      less_than_zero_def)

section \<open>Properties of the CSV export\<close>

lemma replace_quotes_concat:
  "replace_quotes s = concat (map (\<lambda>c. if c = CHR 0x22 then [c, c] else [c]) s)"
  by (induction s) simp_all

lemma js_join_separated: "js_join sep xs = separated sep xs"
  by (induction sep xs rule: js_join.induct) simp_all

lemma quote_replace_quotes: "[CHR 0x22] @ replace_quotes s @ [CHR 0x22] = quoted s"
  by (simp add: quoted_def replace_quotes_concat)

lemma csvHeaders_csv_line: "csvHeaders headers = csv_line headers"
  by (simp only: csvHeaders_def csv_line_def js_join_separated quote_replace_quotes)

lemma csv_cell_quoted:
  "(if loosely_null cell then [CHR 0x22, CHR 0x22]
    else [CHR 0x22] @ replace_quotes (js_String toString cell) @ [CHR 0x22])
   = quoted (cell_text toString cell)"
proof (cases cell)
  case JNull
  then show ?thesis by (simp add: loosely_null_def cell_text_def quoted_def)
next
  case JUndefined
  then show ?thesis by (simp add: loosely_null_def cell_text_def quoted_def)
next
  case (JString s)
  then show ?thesis
    using quote_replace_quotes [of s] by (simp add: loosely_null_def cell_text_def js_String_def)
next
  case (JOther x)
  then show ?thesis
    using quote_replace_quotes [of "toString x"]
    by (simp add: loosely_null_def cell_text_def js_String_def)
qed

lemma csvRows_csv_lines:
  "csvRows toString rows
     = separated [CHR 0x0A] (map (\<lambda>row. csv_line (map (cell_text toString) row)) rows)"
  by (simp only: csvRows_def csv_line_def js_join_separated csv_cell_quoted map_map comp_def)

text \<open>
  Claim C10. For every list of headers and rows, the CSV text is the header line, a
  newline, and one line per row, the lines of the rows separated by newlines. In every
  line the fields are separated by commas; every header and every cell is wrapped in
  double quotes with the double quotes inside it doubled; a \<open>null\<close> or \<open>undefined\<close> cell
  is the empty quoted string. With at least one row the text is the header line and the
  row lines, separated by newlines.
\<close>

theorem exportToCSV_text:
  "exportToCSV toString rows title headers
     = csv_line headers @ [CHR 0x0A]
       @ separated [CHR 0x0A] (map (\<lambda>row. csv_line (map (cell_text toString) row)) rows)
   \<and> (rows \<noteq> [] \<longrightarrow>
        exportToCSV toString rows title headers
          = separated [CHR 0x0A]
              (csv_line headers # map (\<lambda>row. csv_line (map (cell_text toString) row)) rows))
   \<and> length (map (\<lambda>row. csv_line (map (cell_text toString) row)) rows) = length rows
   \<and> cell_text toString JNull = [] \<and> cell_text toString JUndefined = []
   \<and> quoted [] = [CHR 0x22, CHR 0x22]
   \<and> quoted s = [CHR 0x22] @ concat (map (\<lambda>c. if c = CHR 0x22 then [c, c] else [c]) s) @ [CHR 0x22]"
proof -
  have content: "exportToCSV toString rows title headers
     = csv_line headers @ [CHR 0x0A]
       @ separated [CHR 0x0A] (map (\<lambda>row. csv_line (map (cell_text toString) row)) rows)"
    by (simp add: exportToCSV_def csvHeaders_csv_line csvRows_csv_lines)
  have "x @ [n] @ separated [n] ys = separated [n] (x # ys)" if "ys \<noteq> []" for x ys and n :: char
    using that by (cases ys) simp_all
  with content show ?thesis
    by (simp add: cell_text_def quoted_def)
qed

theorem exportToCSV_text_witness:
  "exportToCSV (\<lambda>b. if b then ''true'' else ''false'')
       [[JString [CHR ''a'', CHR 0x22, CHR ''b''], JNull], [JOther True, JUndefined]]
       ''Departments''
       [''name'', ''note'']
     = [CHR 0x22] @ ''name'' @ [CHR 0x22] @ '','' @ [CHR 0x22] @ ''note'' @ [CHR 0x22, CHR 0x0A]
       @ [CHR 0x22, CHR ''a'', CHR 0x22, CHR 0x22, CHR ''b'', CHR 0x22] @ '','' @ [CHR 0x22, CHR 0x22, CHR 0x0A]
       @ [CHR 0x22] @ ''true'' @ [CHR 0x22] @ '','' @ [CHR 0x22, CHR 0x22]"
  using exportToCSV_text
    [of "\<lambda>b. if b then ''true'' else ''false''"
        "[[JString [CHR ''a'', CHR 0x22, CHR ''b''], JNull], [JOther True, JUndefined]]"
        "''Departments''" "[''name'', ''note'']"]
  by (simp add: csv_line_def quoted_def cell_text_def)

section \<open>Properties of the creation workflow\<close>






section \<open>Properties of the fetch coordinator\<close>

lemma count_list_remove1:
  "count_list (remove1 k xs) k' = (if k = k' then count_list xs k' - 1 else count_list xs k')"
  by (induction xs) auto

lemma coordinator_step_invariant:
  assumes "distinct (outstanding c)" and "set (outstanding c) = inFlight c"
  shows "distinct (outstanding (coordinator_step c e))
         \<and> set (outstanding (coordinator_step c e)) = inFlight (coordinator_step c e)"
  using assms by (cases e) auto

lemma coordinator_run_invariant:
  "distinct (outstanding c) \<Longrightarrow> set (outstanding c) = inFlight c \<Longrightarrow>
     distinct (outstanding (coordinator_run events c))
     \<and> set (outstanding (coordinator_run events c)) = inFlight (coordinator_run events c)"
proof (induction events arbitrary: c)
  case Nil
  then show ?case by (simp add: coordinator_run_def)
next
  case (Cons e events)
  from coordinator_step_invariant [OF Cons.prems]
  have "distinct (outstanding (coordinator_step c e))"
    and "set (outstanding (coordinator_step c e)) = inFlight (coordinator_step c e)"
    by simp_all
  from Cons.IH [OF this] show ?case
    by (simp add: coordinator_run_def)
qed

lemma coordinator_run_Cons:
  "coordinator_run (e # es) c = coordinator_run es (coordinator_step c e)"
  by (simp add: coordinator_run_def)

lemma stays_in_flight:
  "k \<in> inFlight c \<Longrightarrow> \<forall>e \<in> set es. \<not> completes k e \<Longrightarrow>
     k \<in> inFlight (coordinator_run es c)
     \<and> count_list (fetchCalls (coordinator_run es c)) k = count_list (fetchCalls c) k"
proof (induction es arbitrary: c)
  case Nil
  then show ?case by (simp add: coordinator_run_def)
next
  case (Cons e es)
  have "k \<in> inFlight (coordinator_step c e)
        \<and> count_list (fetchCalls (coordinator_step c e)) k = count_list (fetchCalls c) k"
    using Cons.prems by (cases e) auto
  with Cons.IH [of "coordinator_step c e"] Cons.prems show ?case
    by (simp add: coordinator_run_Cons)
qed

lemma fetchCalls_step_bound:
  "count_list (fetchCalls (coordinator_step c e)) k + count_list (outstanding c) k
     \<le> count_list (fetchCalls c) k + count_list (outstanding (coordinator_step c e)) k
        + (if completes k e then 1 else 0)"
  by (cases e) (auto simp add: count_list_remove1)

lemma fetchCalls_run_bound:
  "count_list (fetchCalls (coordinator_run es c)) k + count_list (outstanding c) k
     \<le> count_list (fetchCalls c) k + count_list (outstanding (coordinator_run es c)) k
        + length (filter (completes k) es)"
proof (induction es arbitrary: c)
  case Nil
  then show ?case by (simp add: coordinator_run_def)
next
  case (Cons e es)
  from Cons.IH [of "coordinator_step c e"] fetchCalls_step_bound [of c e k] show ?case
    by (auto simp add: coordinator_run_Cons split: if_splits)
qed

lemma distinct_count_list_le: "distinct xs \<Longrightarrow> count_list xs k \<le> 1"
  by (induction xs) auto

text \<open>
  Claim C4. In every state that the coordinator reaches from its initial state by any
  sequence of load requests and completions, at most one network operation is
  outstanding per request key, and the keys of the outstanding operations are the
  in-flight set. A load request for a key in flight changes nothing: it issues no call.
  Two load requests for a key with no completion of that key between them issue as many
  calls for the key as the first alone, which is exactly one more than before when the
  key was not in flight. The calls issued for a key never exceed its completions by
  more than one.
\<close>

theorem at_most_one_outstanding_fetch:
  "count_list (outstanding (coordinator_run events (coordinator_init repo))) k \<le> 1
   \<and> set (outstanding (coordinator_run events (coordinator_init repo)))
       = inFlight (coordinator_run events (coordinator_init repo))
   \<and> (k \<in> inFlight (coordinator_run events (coordinator_init repo)) \<longrightarrow>
        coordinator_step (coordinator_run events (coordinator_init repo)) (Load k)
          = coordinator_run events (coordinator_init repo))
   \<and> ((\<forall>e \<in> set between. \<not> completes k e) \<longrightarrow>
        count_list (fetchCalls (coordinator_run (events @ [Load k] @ between @ [Load k])
                                  (coordinator_init repo))) k
          = count_list (fetchCalls (coordinator_run (events @ [Load k]) (coordinator_init repo))) k)
   \<and> (k \<notin> inFlight (coordinator_run events (coordinator_init repo)) \<longrightarrow>
        count_list (fetchCalls (coordinator_run (events @ [Load k]) (coordinator_init repo))) k
          = Suc (count_list (fetchCalls (coordinator_run events (coordinator_init repo))) k))
   \<and> count_list (fetchCalls (coordinator_run events (coordinator_init repo))) k
       \<le> Suc (length (filter (completes k) events))"
proof -
  let ?c = "coordinator_run events (coordinator_init repo)"
  let ?c1 = "coordinator_run (events @ [Load k]) (coordinator_init repo)"
  have inv: "distinct (outstanding ?c) \<and> set (outstanding ?c) = inFlight ?c"
    by (rule coordinator_run_invariant) (simp_all add: coordinator_init_def)
  then have one: "count_list (outstanding ?c) k \<le> 1"
    using distinct_count_list_le [of "outstanding ?c" k] by blast
  have ignored: "k \<in> inFlight ?c \<longrightarrow> coordinator_step ?c (Load k) = ?c"
    by simp
  have c1: "?c1 = coordinator_step ?c (Load k)"
    by (simp add: coordinator_run_def)
  then have in_flight: "k \<in> inFlight ?c1"
    by simp
  have twice: "(\<forall>e \<in> set between. \<not> completes k e) \<longrightarrow>
        count_list (fetchCalls (coordinator_run (events @ [Load k] @ between @ [Load k])
                                  (coordinator_init repo))) k
          = count_list (fetchCalls ?c1) k"
  proof
    assume quiet: "\<forall>e \<in> set between. \<not> completes k e"
    let ?c2 = "coordinator_run between ?c1"
    from stays_in_flight [OF in_flight quiet]
    have "k \<in> inFlight ?c2" and same: "count_list (fetchCalls ?c2) k = count_list (fetchCalls ?c1) k"
      by simp_all
    then have "coordinator_step ?c2 (Load k) = ?c2"
      by simp
    moreover have "coordinator_run (events @ [Load k] @ between @ [Load k]) (coordinator_init repo)
        = coordinator_step ?c2 (Load k)"
      by (simp add: coordinator_run_def)
    ultimately show "count_list (fetchCalls (coordinator_run (events @ [Load k] @ between @ [Load k])
                                  (coordinator_init repo))) k
          = count_list (fetchCalls ?c1) k"
      using same by simp
  qed
  have first: "k \<notin> inFlight ?c \<longrightarrow>
        count_list (fetchCalls ?c1) k = Suc (count_list (fetchCalls ?c) k)"
    using c1 by simp
  have "count_list (fetchCalls ?c) k
          \<le> count_list (outstanding ?c) k + length (filter (completes k) events)"
    using fetchCalls_run_bound [of events "coordinator_init repo" k]
    by (simp add: coordinator_init_def)
  with one have bound: "count_list (fetchCalls ?c) k \<le> Suc (length (filter (completes k) events))"
    by simp
  from one inv ignored twice first bound show ?thesis
    by blast
qed

theorem at_most_one_outstanding_fetch_witness:
  "ChildrenOfKey ''42'' \<notin> inFlight (coordinator_run [] (coordinator_init []))
   \<and> \<not> completes (ChildrenOfKey ''42'') (Load (RootPageKey 1))
   \<and> fetchCalls (coordinator_run
        [Load (ChildrenOfKey ''42''), Load (RootPageKey 1), Load (ChildrenOfKey ''42'')]
        (coordinator_init []))
     = [ChildrenOfKey ''42'', RootPageKey 1]
   \<and> ChildrenOfKey ''42'' \<in> inFlight (coordinator_run [Load (ChildrenOfKey ''42'')] (coordinator_init []))
   \<and> fetchCalls (coordinator_run [Load (ChildrenOfKey ''42''), Load (ChildrenOfKey ''42'')]
                 (coordinator_init []))
     = [ChildrenOfKey ''42'']
   \<and> outstanding (coordinator_run [Load (ChildrenOfKey ''42''), Load (ChildrenOfKey ''42'')]
                 (coordinator_init []))
     = [ChildrenOfKey ''42'']
   \<and> fetchCalls (coordinator_run
        [Load (ChildrenOfKey ''42''), FetchFailed (ChildrenOfKey ''42''), Load (ChildrenOfKey ''42'')]
        (coordinator_init []))
     = [ChildrenOfKey ''42'', ChildrenOfKey ''42'']"
  using at_most_one_outstanding_fetch
      [of "[]" "[]" "ChildrenOfKey ''42''" "[Load (RootPageKey 1)]"]
    at_most_one_outstanding_fetch
      [of "[Load (ChildrenOfKey ''42'')]" "[]" "ChildrenOfKey ''42''" "[]"]
  by (simp add: coordinator_run_def coordinator_init_def)

end
